theory Spec2Isabelle
  imports Main
begin

section \<open>Errors and outcomes\<close>

text \<open>
  Go \<^verbatim>\<open>error\<close> values are modelled as data: \<^verbatim>\<open>io.EOF\<close>, a gRPC status
  with its code, a plain message built by \<^verbatim>\<open>fmt.Errorf\<close>, and a message that
  wraps another error with \<^verbatim>\<open>%v\<close>. A nil error is \<open>None\<close> of \<open>error option\<close>.
\<close>

datatype codes = Canceled | Unknown | Unavailable | Internal

datatype error =
    IoEOF
  | Status codes
  | Errorf string
  | Wrap string error

section \<open>Configuration (api/config.go)\<close>

record MinionListener =
  Name :: string
  Parser :: string
  Port :: int

record MinionConfig =
  ID :: string
  Location :: string
  BrokerURL :: string
  BrokerType :: string
  BrokerProperties :: "(string \<times> string) list"
  TrapPort :: int
  SyslogPort :: int
  NxosGrpcPort :: int
  Listeners :: "MinionListener list"

text \<open>
  \<^verbatim>\<open>strings.Split(s, sep)\<close> for a separator of one byte: the segments between the
  occurrences of the separator, in order; a string without the separator gives the
  one-element slice holding the string itself (also for the empty string).
\<close>

fun strings_Split :: "string \<Rightarrow> char \<Rightarrow> string list" where
  "strings_Split [] sep = [[]]"
| "strings_Split (c # cs) sep =
     (if c = sep then [] # strings_Split cs sep
      else (case strings_Split cs sep of
              [] \<Rightarrow> [[c]]
            | seg # segs \<Rightarrow> (c # seg) # segs))"

text \<open>
  \<^verbatim>\<open>GetParser\<close>: the empty string for an empty parser, otherwise
  \<^verbatim>\<open>sections[len(sections)-1]\<close> of the parser split at dots. The slice returned by
  \<^verbatim>\<open>strings.Split\<close> is never empty (lemma \<open>strings_Split_not_Nil\<close>), so the index
  is always in range and \<open>last\<close> is the element read.
\<close>

definition GetParser :: "MinionListener \<Rightarrow> string" where
  "GetParser listener =
     (if Parser listener = [] then []
      else last (strings_Split (Parser listener) CHR ''.''))"

text \<open>\<^verbatim>\<open>GetListener\<close>: the first listener with the given name, or nil.\<close>

fun GetListener_in :: "MinionListener list \<Rightarrow> string \<Rightarrow> MinionListener option" where
  "GetListener_in [] name = None"
| "GetListener_in (listener # rest) name =
     (if Name listener = name then Some listener else GetListener_in rest name)"

definition GetListener :: "MinionConfig \<Rightarrow> string \<Rightarrow> MinionListener option" where
  "GetListener cfg name = GetListener_in (Listeners cfg) name"

text \<open>\<^verbatim>\<open>IsValid\<close>: three checks in the order of the source; nil when all pass.\<close>

definition IsValid :: "MinionConfig \<Rightarrow> error option" where
  "IsValid cfg =
     (if ID cfg = [] then Some (Errorf ''Minion ID required'')
      else if Location cfg = [] then Some (Errorf ''Location required'')
      else if BrokerURL cfg = [] then Some (Errorf ''Broker URL required'')
      else None)"

text \<open>
  The spec's wording of the value \<^verbatim>\<open>GetParser\<close> returns: the final dot-separated
  segment of a string, that is, what follows its last dot (the whole string when it has
  no dot).
\<close>

definition final_dotted_segment :: "string \<Rightarrow> string" where
  "final_dotted_segment s = rev (takeWhile (\<lambda>c. c \<noteq> CHR ''.'') (rev s))"

text \<open>
  Modelled from the spec: \<^verbatim>\<open>GetListenerByParser\<close> is called by the test and by the
  NX-OS module but its body is not part of the sources at hand. The spec says:
  "\<^verbatim>\<open>GetListenerByParser(p)\<close> matches the final dotted segment of the configured
  parser". It is modelled like its sibling \<^verbatim>\<open>GetListener\<close>: the first listener whose
  \<^verbatim>\<open>GetParser\<close> equals the argument, or nil.
\<close>

fun GetListenerByParser_in :: "MinionListener list \<Rightarrow> string \<Rightarrow> MinionListener option" where
  "GetListenerByParser_in [] parser = None"
| "GetListenerByParser_in (listener # rest) parser =
     (if GetParser listener = parser then Some listener
      else GetListenerByParser_in rest parser)"

definition GetListenerByParser :: "MinionConfig \<Rightarrow> string \<Rightarrow> MinionListener option" where
  "GetListenerByParser cfg parser = GetListenerByParser_in (Listeners cfg) parser"

text \<open>
  Modelled from the spec: the function that resolves \<^verbatim>\<open>BrokerType\<close> to a transport
  (\<^verbatim>\<open>broker.GetBroker\<close>, called by \<^verbatim>\<open>rootHandler\<close>) is not part of the sources at
  hand. The spec names two transports, the streaming-session one and the pub/sub one;
  the command's default configuration names the first \<^verbatim>\<open>grpc\<close>, and the deployment
  file runs the agent once per transport, as \<^verbatim>\<open>gominion-grpc\<close> and
  \<^verbatim>\<open>gominion-kafka\<close>.
\<close>

definition known_transport :: "string \<Rightarrow> bool" where
  "known_transport t = (t = ''grpc'' \<or> t = ''kafka'')"

text \<open>
  Modelled from the spec: \<^verbatim>\<open>ParseListeners\<close> is called by \<^verbatim>\<open>rootHandler\<close> and by
  the test, but its body is not part of the sources at hand. The spec says: "Listener
  flag syntax: \<^verbatim>\<open>Name,Port,Parser\<close>. Malformed entries (fewer than three fields) are
  rejected per-entry but do not abort startup of well-formed entries", and, of the
  test's input, "two well-formed listeners added; ill-formed entries rejected with
  per-entry errors". The model splits each entry at commas; an entry with fewer than
  three fields is rejected with an error of its own; otherwise the first three fields
  are the name, the port and the parser, and the listener is appended to
  \<^verbatim>\<open>Listeners\<close> (after the listeners already there: the test counts four listeners
  after parsing two well-formed entries into a configuration that has two). The spec
  says nothing about a port that is not a number: the model rejects such an entry as
  well. The error that \<^verbatim>\<open>rootHandler\<close> tests is nil, since per-entry rejection does
  not abort startup; the per-entry errors are returned beside it.
\<close>

definition digit_of :: "char \<Rightarrow> nat option" where
  "digit_of c =
     (let n = (of_char c :: nat) in if 48 \<le> n \<and> n \<le> 57 then Some (n - 48) else None)"

fun digits_value :: "nat \<Rightarrow> string \<Rightarrow> nat option" where
  "digits_value acc [] = Some acc"
| "digits_value acc (c # cs) =
     (case digit_of c of None \<Rightarrow> None | Some d \<Rightarrow> digits_value (10 * acc + d) cs)"

definition parsePort :: "string \<Rightarrow> int option" where
  "parsePort s = (if s = [] then None else map_option int (digits_value 0 s))"

definition parseListener :: "string \<Rightarrow> error + MinionListener" where
  "parseListener entry =
     (case strings_Split entry CHR '','' of
        name # port # parser # extra \<Rightarrow>
          (case parsePort port of
             None \<Rightarrow> Inl (Wrap ''invalid listener port'' (Errorf entry))
           | Some p \<Rightarrow> Inr \<lparr>Name = name, Parser = parser, Port = p\<rparr>)
      | _ \<Rightarrow> Inl (Wrap ''invalid listener'' (Errorf entry)))"

fun ParseListeners_loop ::
  "string list \<Rightarrow> MinionListener list \<times> error list \<Rightarrow> MinionListener list \<times> error list" where
  "ParseListeners_loop [] acc = acc"
| "ParseListeners_loop (entry # entries) (listeners, rejected) =
     (case parseListener entry of
        Inl err \<Rightarrow> ParseListeners_loop entries (listeners, rejected @ [err])
      | Inr listener \<Rightarrow> ParseListeners_loop entries (listeners @ [listener], rejected))"

definition ParseListeners ::
  "string list \<Rightarrow> MinionConfig \<Rightarrow> MinionConfig \<times> error list \<times> error option" where
  "ParseListeners entries cfg =
     (case ParseListeners_loop entries (Listeners cfg, []) of
        (listeners, rejected) \<Rightarrow> (cfg\<lparr>Listeners := listeners\<rparr>, rejected, None))"

section \<open>Startup (the root command)\<close>

text \<open>
  \<^verbatim>\<open>rootHandler\<close> up to the choice of the broker: \<^verbatim>\<open>log.Fatalf\<close> ends the process,
  so each of its calls is a final result. What follows the choice of the broker (its
  start, the wait for the interrupt, the stop) is not modelled here.
\<close>

datatype startup =
    Fatalf string "error option"
  | BrokerChosen MinionConfig "error list"

definition rootHandler :: "MinionConfig \<Rightarrow> string list \<Rightarrow> startup" where
  "rootHandler minionConfig listeners =
     (case IsValid minionConfig of
        Some err \<Rightarrow> Fatalf ''Invalid configuration: %v'' (Some err)
      | None \<Rightarrow>
          (case ParseListeners listeners minionConfig of
             (cfg, rejected, Some err) \<Rightarrow> Fatalf ''Invalid listener configuration: %v'' (Some err)
           | (cfg, rejected, None) \<Rightarrow>
               if known_transport (BrokerType cfg) then BrokerChosen cfg rejected
               else Fatalf ''Cannot find broker implementation'' None))"

section \<open>Messages of the IPC protocol\<close>

text \<open>
  The generated protocol-buffer types are not part of the sources at hand. The records
  hold the fields the client reads (\<^verbatim>\<open>SystemId\<close>, \<^verbatim>\<open>ModuleId\<close>, \<^verbatim>\<open>RpcId\<close>,
  \<^verbatim>\<open>Location\<close>) and the fields the spec lists beside them: the payload, and for a
  request its expiration, an absolute time in epoch milliseconds (an unsigned 64-bit
  number on the wire; the client does no arithmetic on it).
\<close>

record SinkMessage =
  msg_MessageId :: string
  msg_ModuleId :: string
  msg_SystemId :: string
  msg_Location :: string
  msg_Content :: string

record RpcRequestProto =
  req_RpcId :: string
  req_ModuleId :: string
  req_SystemId :: string
  req_Location :: string
  req_ExpirationTime :: nat
  req_RpcContent :: string

record RpcResponseProto =
  res_RpcId :: string
  res_ModuleId :: string
  res_SystemId :: string
  res_Location :: string
  res_RpcContent :: string


text \<open>
  An \<^verbatim>\<open>RPCModule\<close> is its \<^verbatim>\<open>Execute\<close> method; a nil response is \<open>None\<close>. The
  registry of RPC modules (\<^verbatim>\<open>api.GetRPCModule\<close>, not part of the sources at hand) is a
  parameter of the client's functions: a map from module identifiers to modules.
\<close>

type_synonym RPCModule = "RpcRequestProto \<Rightarrow> RpcResponseProto option"

type_synonym RPCRegistry = "string \<Rightarrow> RPCModule option"

section \<open>The gRPC client\<close>

text \<open>
  The client is modelled after \<^verbatim>\<open>Start\<close> has dialled: the connection and both
  mutexes exist. Its state holds the configuration, the two streams (a handle, or nil)
  and the counters; every call that leaves the client (a mutex operation, a call on a
  stream or on the gRPC stub, a call of a module, a log line, the start of a goroutine)
  is appended to \<open>events\<close>, in the order of the source. What the outside returns is an
  argument of the function that asks for it: the state of the connection
  (\<^verbatim>\<open>conn.GetState()\<close>), the outcome of opening a stream, the outcome of a send or of a
  receive. Tracing spans are left out. A goroutine is run where the source starts it,
  to its end: the model fixes this one schedule.
\<close>

datatype connectivity = Idle | Connecting | Ready | TransientFailure | Shutdown

datatype counter =
    SinkMsgDeliverySucceeded
  | SinkMsgDeliveryFailed
  | RPCReqReceivedSucceeded
  | RPCReqReceivedFailed
  | RPCReqProcessedSucceeded
  | RPCReqProcessedFailed
  | RPCResSentSucceeded
  | RPCResSentFailed

datatype mutex = sinkMutex | rpcMutex

datatype level = LogDebug | LogInfo | LogWarn | LogError

datatype goroutine = RpcHandler | RpcSupervisor | RpcWorker

datatype event =
    Lock mutex
  | Unlock mutex
  | Log level string
  | SinkStreaming "error + nat"
  | RpcStreaming "error + nat"
  | CloseSend nat
  | SinkStream_Send nat SinkMessage "error option"
  | RpcStream_Send nat RpcResponseProto "error option"
  | RpcStream_Recv nat "RpcRequestProto option" "error option"
  | Execute string RpcRequestProto
  | Go goroutine
  | Sleep

record GrpcClient =
  config :: MinionConfig
  rpcStream :: "nat option"
  sinkStream :: "nat option"
  metrics :: "counter \<times> string \<times> string \<Rightarrow> nat"
  events :: "event list"

text \<open>
  A panic of the Go runtime (here: a method call on a nil stream, or a field read through
  a nil pointer) ends the process; the model returns the client as it was then.
\<close>

datatype panic = NilDereference GrpcClient

definition emit :: "event \<Rightarrow> GrpcClient \<Rightarrow> GrpcClient" where
  "emit e cli = cli\<lparr>events := events cli @ [e]\<rparr>"

text \<open>\<^verbatim>\<open>counter.WithLabelValues(systemId, moduleId).Inc()\<close>.\<close>

definition Inc :: "counter \<Rightarrow> string \<Rightarrow> string \<Rightarrow> GrpcClient \<Rightarrow> GrpcClient" where
  "Inc c systemId moduleId cli =
     cli\<lparr>metrics := (metrics cli)
       ((c, systemId, moduleId) := Suc (metrics cli (c, systemId, moduleId)))\<rparr>"

subsection \<open>The Sink stream\<close>

text \<open>
  \<^verbatim>\<open>initSinkStream\<close>; \<open>opened\<close> is what \<^verbatim>\<open>cli.onms.SinkStreaming\<close> returns: an
  error, or the new stream. The deferred unlock runs last on both paths.
\<close>

definition initSinkStream :: "error + nat \<Rightarrow> GrpcClient \<Rightarrow> GrpcClient \<times> error option" where
  "initSinkStream opened cli =
     (let cli1 = emit (Lock sinkMutex) cli;
          cli2 = (case sinkStream cli1 of
                    Some old \<Rightarrow> emit (CloseSend old) cli1
                  | None \<Rightarrow> cli1);
          cli3 = emit (SinkStreaming opened) cli2
      in case opened of
           Inl err \<Rightarrow>
             (emit (Unlock sinkMutex) (cli3\<lparr>sinkStream := None\<rparr>),
              Some (Wrap ''cannot initialize Sink API Stream: %v'' err))
         | Inr stream \<Rightarrow>
             (emit (Unlock sinkMutex) (cli3\<lparr>sinkStream := Some stream\<rparr>), None))"

text \<open>
  The second half of \<^verbatim>\<open>Send\<close>, from the lock on: \<open>sent\<close> is what
  \<^verbatim>\<open>cli.sinkStream.Send(msg)\<close> returns.
\<close>

definition Send_locked ::
  "error option \<Rightarrow> SinkMessage \<Rightarrow> GrpcClient \<Rightarrow> panic + GrpcClient \<times> error option" where
  "Send_locked sent msg cli =
     (let cli1 = emit (Lock sinkMutex) cli
      in case sinkStream cli1 of
           None \<Rightarrow> Inl (NilDereference cli1)
         | Some stream \<Rightarrow>
             (let cli2 = emit (Unlock sinkMutex) (emit (SinkStream_Send stream msg sent) cli1)
              in case sent of
                   None \<Rightarrow>
                     Inr (Inc SinkMsgDeliverySucceeded (msg_SystemId msg) (msg_ModuleId msg) cli2,
                          None)
                 | Some err \<Rightarrow>
                     Inr (Inc SinkMsgDeliveryFailed (msg_SystemId msg) (msg_ModuleId msg) cli2,
                          Some (if err = IoEOF then Errorf ''server unreachable'' else err))))"

text \<open>
  \<^verbatim>\<open>Send\<close>; \<open>state\<close> is what \<^verbatim>\<open>cli.conn.GetState()\<close> returns, \<open>opened\<close> and
  \<open>sent\<close> are the outcomes of opening the stream and of sending on it, should the call
  come to that.
\<close>

definition Send ::
  "connectivity \<Rightarrow> error + nat \<Rightarrow> error option \<Rightarrow> SinkMessage \<Rightarrow> GrpcClient
    \<Rightarrow> panic + GrpcClient \<times> error option" where
  "Send state opened sent msg cli =
     (if sinkStream cli = None \<or> state \<noteq> Ready then
        (case initSinkStream opened cli of
           (cli1, Some err) \<Rightarrow> Inr (cli1, Some err)
         | (cli1, None) \<Rightarrow>
             Send_locked sent msg (emit (Log LogWarn ''Sink API stream restarted'') cli1))
      else Send_locked sent msg cli)"

text \<open>The events a call has added to those of the client it started from.\<close>

definition added :: "GrpcClient \<Rightarrow> GrpcClient \<Rightarrow> event list" where
  "added cli cli1 = drop (length (events cli)) (events cli1)"

fun is_SinkStreaming :: "event \<Rightarrow> bool" where
  "is_SinkStreaming (SinkStreaming opened) = True"
| "is_SinkStreaming e = False"

fun is_SinkStream_Send :: "event \<Rightarrow> bool" where
  "is_SinkStream_Send (SinkStream_Send stream msg sent) = True"
| "is_SinkStream_Send e = False"

fun is_RpcStream_Send :: "event \<Rightarrow> bool" where
  "is_RpcStream_Send (RpcStream_Send stream response sent) = True"
| "is_RpcStream_Send e = False"

fun is_Execute :: "event \<Rightarrow> bool" where
  "is_Execute (Execute moduleId request) = True"
| "is_Execute e = False"

subsection \<open>The RPC stream\<close>

text \<open>
  \<^verbatim>\<open>sendResponse\<close>; \<open>state\<close> is the state of the connection, \<open>sent\<close> what
  \<^verbatim>\<open>cli.rpcStream.Send(response)\<close> returns.
\<close>

definition sendResponse ::
  "connectivity \<Rightarrow> error option \<Rightarrow> RpcResponseProto \<Rightarrow> GrpcClient
    \<Rightarrow> GrpcClient \<times> error option" where
  "sendResponse state sent response cli =
     (case (if state = Ready then rpcStream cli else None) of
        Some stream \<Rightarrow>
          (let cli1 = emit (Unlock rpcMutex)
                        (emit (RpcStream_Send stream response sent) (emit (Lock rpcMutex) cli))
           in case sent of
                None \<Rightarrow>
                  (Inc RPCResSentSucceeded (res_SystemId response) (res_ModuleId response) cli1,
                   None)
              | Some err \<Rightarrow>
                  (Inc RPCResSentFailed (res_SystemId response) (res_ModuleId response) cli1,
                   Some (Wrap ''cannot send RPC response for module %s with ID %s: %v'' err)))
      | None \<Rightarrow>
          (Inc RPCResSentFailed (res_SystemId response) (res_ModuleId response) cli,
           Some (Errorf
             ''cannot connect to the server, ignoring RPC request for module %s with ID %s'')))"

text \<open>
  \<^verbatim>\<open>processRequest\<close>, with the goroutine it starts for a registered module run to its
  end; \<open>state\<close> and \<open>sent\<close> are what that worker meets in \<^verbatim>\<open>sendResponse\<close>. The
  error the worker ends with goes to the tracing span only.
\<close>

definition processRequest ::
  "RPCRegistry \<Rightarrow> connectivity \<Rightarrow> error option \<Rightarrow> RpcRequestProto \<Rightarrow> GrpcClient
    \<Rightarrow> GrpcClient" where
  "processRequest modules state sent request cli =
     (let cli1 = emit (Log LogDebug
                   ''Received RPC request with ID %s for module %s at location %s'') cli
      in case modules (req_ModuleId request) of
           Some module \<Rightarrow>
             (let cli2 = emit (Execute (req_ModuleId request) request) (emit (Go RpcWorker) cli1)
              in case module request of
                   Some response \<Rightarrow>
                     fst (sendResponse state sent response
                       (Inc RPCReqProcessedSucceeded
                          (req_SystemId request) (req_ModuleId request) cli2))
                 | None \<Rightarrow>
                     Inc RPCReqProcessedFailed (req_SystemId request) (req_ModuleId request) cli2)
         | None \<Rightarrow>
             emit (Log LogError
               ''Cannot find implementation for module %s, ignoring request with ID %s'') cli1)"


text \<open>
  One turn of the receive loop meets: the state of the connection at the head of the
  loop, what \<^verbatim>\<open>cli.rpcStream.Recv()\<close> returns (a request pointer and an error, as in
  Go), and what the worker started for the request meets when it sends the response.
\<close>

record rpcStep =
  step_state :: connectivity
  step_recv :: "RpcRequestProto option \<times> error option"
  step_worker_state :: connectivity
  step_worker_sent :: "error option"

text \<open>
  \<^verbatim>\<open>status.FromError(err)\<close> followed by \<^verbatim>\<open>Code()\<close>: an error that is not a gRPC
  status has the code \<^verbatim>\<open>Unknown\<close>.
\<close>

fun status_Code :: "error \<Rightarrow> codes" where
  "status_Code (Status c) = c"
| "status_Code err = Unknown"

text \<open>
  The receive loop of the goroutine that \<^verbatim>\<open>initRPCStream\<close> starts, run over the turns
  given. A field read through the request pointer panics when the pointer is nil: in
  \<^verbatim>\<open>processRequest\<close> (its first statement formats \<^verbatim>\<open>request.RpcId\<close>) and in the error
  branch of the loop (\<^verbatim>\<open>request.SystemId\<close>). When the turns are used up the goroutine
  is waiting in \<^verbatim>\<open>Recv\<close>; the client reached so far is returned.
\<close>

fun rpcLoop :: "RPCRegistry \<Rightarrow> rpcStep list \<Rightarrow> GrpcClient \<Rightarrow> panic + GrpcClient" where
  "rpcLoop modules [] cli = Inr cli"
| "rpcLoop modules (step # steps) cli =
     (case (if step_state step = Ready then rpcStream cli else None) of
        None \<Rightarrow> Inr (emit (Log LogWarn ''Terminating RPC API handler'') cli)
      | Some stream \<Rightarrow>
          (case step_recv step of
             (received, None) \<Rightarrow>
               (let cli1 = emit (RpcStream_Recv stream received None) cli
                in case received of
                     None \<Rightarrow> Inl (NilDereference cli1)
                   | Some request \<Rightarrow>
                       rpcLoop modules steps
                         (Inc RPCReqReceivedSucceeded (req_SystemId request) (req_ModuleId request)
                            (processRequest modules (step_worker_state step)
                               (step_worker_sent step) request cli1)))
           | (received, Some err) \<Rightarrow>
               (let cli1 = emit (RpcStream_Recv stream received (Some err)) cli
                in if err = IoEOF
                   then Inr (emit (Log LogWarn ''Terminating RPC API handler'') cli1)
                   else
                     (let cli2 = (if status_Code err \<noteq> Unavailable
                                  then emit (Log LogError ''Cannot receive RPC Request: %v'') cli1
                                  else cli1)
                      in case received of
                           None \<Rightarrow> Inl (NilDereference cli2)
                         | Some request \<Rightarrow>
                             rpcLoop modules steps
                               (Inc RPCReqReceivedFailed
                                  (req_SystemId request) (req_ModuleId request) cli2)))))"









section \<open>The NX-OS telemetry module (sink/nxos-grpc.go)\<close>

text \<open>
  The module's fields, with \<open>nx_server\<close> telling whether a gRPC server has been
  created. \<^verbatim>\<open>Start\<close> returns the module, what it did (log lines, the server created,
  the TCP listener asked for, the goroutine that serves) and its error; \<open>listened\<close> is
  what \<^verbatim>\<open>net.Listen\<close> returns, should the call come to that.
\<close>

record NxosGrpcModule =
  nx_broker :: "nat option"
  nx_config :: "MinionConfig option"
  nx_server :: bool
  nx_port :: int

datatype nxos_event =
    Warnf string
  | Infof string
  | NewServer
  | Listen int "error option"
  | Serve

definition NxosGrpcModule_Start ::
  "error option \<Rightarrow> MinionConfig \<Rightarrow> nat \<Rightarrow> NxosGrpcModule
    \<Rightarrow> NxosGrpcModule \<times> nxos_event list \<times> error option" where
  "NxosGrpcModule_Start listened cfg broker module =
     (case (case GetListenerByParser cfg ''NxosGrpcParser'' of
              None \<Rightarrow> None
            | Some listener \<Rightarrow> if Port listener = 0 then None else Some listener) of
        None \<Rightarrow> (module, [Warnf ''NX-OS Telemetry Module disabled''], None)
      | Some listener \<Rightarrow>
          (let module1 = module\<lparr>nx_broker := Some broker, nx_config := Some cfg,
                                 nx_server := True, nx_port := Port listener\<rparr>;
               did = [NewServer,
                       Infof ''Starting NX-OS telemetry gRPC server on port %d'',
                       Listen (Port listener) listened]
           in case listened of
                Some err \<Rightarrow>
                  (module1, did, Some (Wrap ''Error cannot start TCP listener: %s'' err))
              | None \<Rightarrow> (module1, did @ [Serve], None)))"

definition idle_module :: NxosGrpcModule where
  "idle_module = \<lparr>nx_broker = None, nx_config = None, nx_server = False, nx_port = 0\<rparr>"

section \<open>The configuration of the test\<close>

text \<open>
  The configuration that \<^verbatim>\<open>TestConfiguration\<close> reads from YAML (fields the YAML does
  not set keep Go's zero value: the empty string or 0), and the listener flags it parses.
\<close>

definition test_config :: MinionConfig where
  "test_config =
     \<lparr>ID = ''go-minion1'', Location = ''Test'', BrokerURL = ''10.0.0.100:8990'',
      BrokerType = [], BrokerProperties = [(''tls-enabled'', ''true'')],
      TrapPort = 11162, SyslogPort = 11514, NxosGrpcPort = 0,
      Listeners =
        [\<lparr>Name = ''Netflow-5'', Parser = ''Netflow5UdpParser'', Port = 18877\<rparr>,
         \<lparr>Name = ''Netflow-9'', Parser = ''Netflow9UdpParser'', Port = 14729\<rparr>]\<rparr>"

definition test_listeners :: "string list" where
  "test_listeners =
     [''Graphite,12003,ForwardParser'', ''NXOS,50000,NxosGrpcParser'',
      ''Wrong1,1000'', ''Wrong2,1001'']"

section \<open>Fixtures of the scenarios\<close>

text \<open>
  A client with both streams open and all counters at zero; the module of the spec's
  dispatch scenario, whose \<^verbatim>\<open>Execute\<close> returns the payload reversed; a request for
  it whose expiration lies one second before the time of receipt; a Sink message.
\<close>

definition client0 :: GrpcClient where
  "client0 =
     \<lparr>config = test_config, rpcStream = Some 1, sinkStream = Some 0,
      metrics = (\<lambda>key. 0), events = []\<rparr>"

definition Echo :: RPCModule where
  "Echo request =
     Some \<lparr>res_RpcId = req_RpcId request, res_ModuleId = req_ModuleId request,
           res_SystemId = req_SystemId request, res_Location = req_Location request,
           res_RpcContent = rev (req_RpcContent request)\<rparr>"

definition echo_registry :: RPCRegistry where
  "echo_registry moduleId = (if moduleId = ''Echo'' then Some Echo else None)"

definition receive_time :: nat where
  "receive_time = 1700000001000"

definition expired_request :: RpcRequestProto where
  "expired_request =
     \<lparr>req_RpcId = ''r1'', req_ModuleId = ''Echo'', req_SystemId = ''go-minion1'',
      req_Location = ''Test'', req_ExpirationTime = 1700000000000,
      req_RpcContent = ''hello''\<rparr>"

definition sink_message :: SinkMessage where
  "sink_message =
     \<lparr>msg_MessageId = ''m1'', msg_ModuleId = ''Syslog'', msg_SystemId = ''go-minion1'',
      msg_Location = ''Test'', msg_Content = ''payload''\<rparr>"







section \<open>Facts about splitting\<close>

lemma strings_Split_not_Nil: "strings_Split s sep \<noteq> []"
  by (induction s) (auto split: list.splits)

lemma strings_Split_no_sep: "sep \<notin> set s \<Longrightarrow> strings_Split s sep = [s]"
  by (induction s) auto

lemma strings_Split_two:
  "sep \<in> set s \<Longrightarrow> \<exists>seg a segs. strings_Split s sep = seg # a # segs"
proof (induction s)
  case Nil
  then show ?case by simp
next
  case (Cons c cs)
  show ?case
  proof (cases "c = sep")
    case True
    then show ?thesis using strings_Split_not_Nil [of cs sep]
      by (cases "strings_Split cs sep") auto
  next
    case False
    with Cons.prems have "sep \<in> set cs" by simp
    from Cons.IH [OF this] False show ?thesis by auto
  qed
qed

lemma last_strings_Split:
  "last (strings_Split s sep) = rev (takeWhile (\<lambda>c. c \<noteq> sep) (rev s))"
proof (induction s)
  case Nil
  then show ?case by simp
next
  case (Cons c cs)
  show ?case
  proof (cases "sep \<in> set cs")
    case True
    then obtain seg a segs where sp: "strings_Split cs sep = seg # a # segs"
      using strings_Split_two by blast
    have "last (strings_Split (c # cs) sep) = last (strings_Split cs sep)"
      using sp by simp
    moreover have "takeWhile (\<lambda>c. c \<noteq> sep) (rev cs @ [c]) = takeWhile (\<lambda>c. c \<noteq> sep) (rev cs)"
      using True by simp
    ultimately show ?thesis using Cons.IH by simp
  next
    case False
    then have a: "strings_Split cs sep = [cs]" by (rule strings_Split_no_sep)
    have l: "last (strings_Split (c # cs) sep) = (if c = sep then cs else c # cs)"
      using a by simp
    have r: "takeWhile (\<lambda>c. c \<noteq> sep) (rev cs @ [c]) = rev cs @ takeWhile (\<lambda>c. c \<noteq> sep) [c]"
      by (rule takeWhile_append2) (use False in auto)
    show ?thesis unfolding rev.simps l r by simp
  qed
qed

lemma strings_Split_append:
  "sep \<notin> set a \<Longrightarrow> strings_Split (a @ sep # b) sep = a # strings_Split b sep"
  by (induction a) auto

section \<open>The parser of a listener\<close>

lemma GetParser_final: "GetParser l = final_dotted_segment (Parser l)"
  by (simp add: GetParser_def final_dotted_segment_def last_strings_Split)

lemma final_dotted_segment_no_dot: "CHR ''.'' \<notin> set (final_dotted_segment s)"
  unfolding final_dotted_segment_def set_rev
  by (metis (mono_tags, lifting) set_takeWhileD)

lemma final_dotted_segment_whole_or_suffix:
  "s = final_dotted_segment s \<or> (\<exists>pre. s = pre @ CHR ''.'' # final_dotted_segment s)"
proof -
  let ?P = "\<lambda>c. c \<noteq> CHR ''.''"
  have split: "rev s = takeWhile ?P (rev s) @ dropWhile ?P (rev s)" by simp
  show ?thesis
  proof (cases "dropWhile ?P (rev s)")
    case Nil
    then have "takeWhile ?P (rev s) = rev s"
      by (metis append_Nil2 takeWhile_dropWhile_id)
    then have "final_dotted_segment s = s"
      unfolding final_dotted_segment_def by (metis rev_rev_ident)
    then show ?thesis by simp
  next
    case (Cons d ds)
    then have "d = CHR ''.''" using hd_dropWhile [of ?P "rev s"] by auto
    with Cons split have "rev s = takeWhile ?P (rev s) @ CHR ''.'' # ds" by simp
    then have "s = rev ds @ CHR ''.'' # rev (takeWhile ?P (rev s))"
      by (metis rev_append rev.simps(2) rev_rev_ident append.assoc append_Cons append_Nil)
    then show ?thesis unfolding final_dotted_segment_def by blast
  qed
qed

lemma GetListenerByParser_in_Some:
  "GetListenerByParser_in ls p = Some l \<Longrightarrow> l \<in> set ls \<and> GetParser l = p"
  by (induction ls) (auto split: if_splits)

lemma GetListenerByParser_in_None:
  "GetListenerByParser_in ls p = None \<longleftrightarrow> (\<forall>l\<in>set ls. GetParser l \<noteq> p)"
  by (induction ls) auto

text \<open>
  Claim C7. For every listener, \<^verbatim>\<open>GetParser\<close> returns the final dot-separated segment
  of its \<^verbatim>\<open>Parser\<close> string: a string without a dot that is either the whole of
  \<^verbatim>\<open>Parser\<close> or what follows its last dot, the whole string when \<^verbatim>\<open>Parser\<close> has no
  dot, and the empty string when \<^verbatim>\<open>Parser\<close> is empty. Listener dispatch by parser
  therefore matches on that final segment: the listener found has it equal to the name
  asked for, and none is found exactly when no listener of the configuration has it.
\<close>

theorem GetParser_final_segment:
  "GetParser listener = final_dotted_segment (Parser listener)
   \<and> CHR ''.'' \<notin> set (GetParser listener)
   \<and> (Parser listener = GetParser listener
        \<or> (\<exists>qualifier. Parser listener = qualifier @ CHR ''.'' # GetParser listener))
   \<and> (CHR ''.'' \<notin> set (Parser listener) \<longrightarrow> GetParser listener = Parser listener)
   \<and> (Parser listener = [] \<longrightarrow> GetParser listener = [])
   \<and> (GetListenerByParser cfg p = Some found \<longrightarrow>
        found \<in> set (Listeners cfg) \<and> final_dotted_segment (Parser found) = p)
   \<and> (GetListenerByParser cfg p = None \<longleftrightarrow>
        (\<forall>l\<in>set (Listeners cfg). final_dotted_segment (Parser l) \<noteq> p))"
proof -
  have eq: "\<And>l. GetParser l = final_dotted_segment (Parser l)" by (rule GetParser_final)
  have nodot: "CHR ''.'' \<notin> set (GetParser listener)"
    unfolding eq by (rule final_dotted_segment_no_dot)
  have whole: "Parser listener = GetParser listener
        \<or> (\<exists>qualifier. Parser listener = qualifier @ CHR ''.'' # GetParser listener)"
    unfolding eq by (rule final_dotted_segment_whole_or_suffix)
  have plain: "CHR ''.'' \<notin> set (Parser listener) \<longrightarrow> GetParser listener = Parser listener"
    by (simp add: GetParser_def strings_Split_no_sep)
  have empty: "Parser listener = [] \<longrightarrow> GetParser listener = []"
    by (simp add: GetParser_def)
  have found: "GetListenerByParser cfg p = Some found \<longrightarrow>
        found \<in> set (Listeners cfg) \<and> final_dotted_segment (Parser found) = p"
    using GetListenerByParser_in_Some [of "Listeners cfg" p found]
    by (simp add: GetListenerByParser_def eq)
  have none: "GetListenerByParser cfg p = None \<longleftrightarrow>
        (\<forall>l\<in>set (Listeners cfg). final_dotted_segment (Parser l) \<noteq> p)"
    by (simp add: GetListenerByParser_def GetListenerByParser_in_None eq)
  from eq nodot whole plain empty found none show ?thesis by blast
qed

theorem GetParser_final_segment_witness:
  "GetParser \<lparr>Name = ''Graphite'', Parser = ''org.opennms.ForwardParser'', Port = 12003\<rparr>
     = ''ForwardParser''
   \<and> CHR ''.'' \<notin> set ''Netflow9UdpParser''
   \<and> GetParser \<lparr>Name = ''Netflow-9'', Parser = ''Netflow9UdpParser'', Port = 14729\<rparr>
     = ''Netflow9UdpParser''
   \<and> GetParser \<lparr>Name = ''None'', Parser = [], Port = 0\<rparr> = []
   \<and> GetListenerByParser test_config ''Netflow9UdpParser''
     = Some \<lparr>Name = ''Netflow-9'', Parser = ''Netflow9UdpParser'', Port = 14729\<rparr>
   \<and> GetListenerByParser test_config ''SFlowUdpParser'' = None"
  using GetParser_final_segment
      [of "\<lparr>Name = ''Graphite'', Parser = ''org.opennms.ForwardParser'', Port = 12003\<rparr>"
          test_config "''Netflow9UdpParser''"
          "\<lparr>Name = ''Netflow-9'', Parser = ''Netflow9UdpParser'', Port = 14729\<rparr>"]
    GetParser_final_segment
      [of "\<lparr>Name = ''Netflow-9'', Parser = ''Netflow9UdpParser'', Port = 14729\<rparr>"
          test_config "''SFlowUdpParser''"]
    GetParser_final_segment [of "\<lparr>Name = ''None'', Parser = [], Port = 0\<rparr>"]
  by (simp add: final_dotted_segment_def test_config_def GetListenerByParser_def GetParser_def)

section \<open>Validation of the configuration\<close>

text \<open>
  Claim C2, as stated, fails on the configuration of the test: its \<^verbatim>\<open>BrokerType\<close> is
  the empty string, which names no transport, and \<^verbatim>\<open>IsValid\<close> returns nil for it (as
  the test asserts).
\<close>

theorem IsValid_BrokerType_counterexample:
  "\<not> (IsValid test_config = None \<longleftrightarrow>
        (ID test_config \<noteq> [] \<and> Location test_config \<noteq> [] \<and> BrokerURL test_config \<noteq> []
         \<and> known_transport (BrokerType test_config)))"
  by (simp add: IsValid_def test_config_def known_transport_def)

text \<open>
  Claim C2, amended. For every configuration, \<^verbatim>\<open>IsValid\<close> returns nil if and only if
  \<^verbatim>\<open>ID\<close>, \<^verbatim>\<open>Location\<close> and \<^verbatim>\<open>BrokerURL\<close> are all non-empty; it does not read
  \<^verbatim>\<open>BrokerType\<close>. When one of the three is empty, \<^verbatim>\<open>IsValid\<close> returns an error, and
  that error is fatal at startup: \<^verbatim>\<open>rootHandler\<close> ends in \<^verbatim>\<open>log.Fatalf\<close> with it.
\<close>

theorem IsValid_three_fields:
  "(IsValid cfg = None \<longleftrightarrow> ID cfg \<noteq> [] \<and> Location cfg \<noteq> [] \<and> BrokerURL cfg \<noteq> [])
   \<and> IsValid (cfg\<lparr>BrokerType := t\<rparr>) = IsValid cfg
   \<and> (IsValid cfg \<noteq> None \<longrightarrow>
        (\<exists>err. IsValid cfg = Some err \<and>
           rootHandler cfg listeners = Fatalf ''Invalid configuration: %v'' (Some err)))"
  by (auto simp: IsValid_def rootHandler_def)

theorem IsValid_three_fields_witness:
  "IsValid (test_config\<lparr>Location := []\<rparr>) \<noteq> None
   \<and> rootHandler (test_config\<lparr>Location := []\<rparr>) test_listeners
       = Fatalf ''Invalid configuration: %v'' (Some (Errorf ''Location required''))
   \<and> IsValid (test_config\<lparr>BrokerType := ''grpc''\<rparr>) = None"
  using IsValid_three_fields [of "test_config\<lparr>Location := []\<rparr>" "''grpc''" test_listeners]
    IsValid_three_fields [of test_config "''grpc''" test_listeners]
  by (auto simp: IsValid_def test_config_def)

section \<open>Listener flags\<close>

lemma ParseListeners_loop_eq:
  "ParseListeners_loop entries (listeners, rejected) =
     (listeners @ map projr (filter (\<lambda>r. \<not> isl r) (map parseListener entries)),
      rejected @ map projl (filter isl (map parseListener entries)))"
  by (induction entries arbitrary: listeners rejected) (auto split: sum.splits)

lemma parseListener_short:
  "length (strings_Split entry CHR '','') < 3 \<Longrightarrow> isl (parseListener entry)"
  by (auto simp: parseListener_def split: list.splits option.splits)

lemma parseListener_three:
  assumes "CHR '','' \<notin> set name" "CHR '','' \<notin> set port" "CHR '','' \<notin> set parser"
    and "parsePort port = Some p"
  shows "parseListener (name @ CHR '','' # port @ CHR '','' # parser)
           = Inr \<lparr>Name = name, Parser = parser, Port = p\<rparr>"
  using assms by (simp add: parseListener_def strings_Split_append strings_Split_no_sep)

text \<open>
  Claim C8. For every list of listener flag entries, \<^verbatim>\<open>ParseListeners\<close> appends to
  \<^verbatim>\<open>Listeners\<close> the listener of each well-formed entry, in order, and rejects every
  other entry with an error of its own; an entry with fewer than three fields is
  rejected, an entry \<^verbatim>\<open>Name,Port,Parser\<close> with a numeric port is added with these
  three values; the error returned is nil whatever was rejected, so \<^verbatim>\<open>rootHandler\<close>
  does not end in \<^verbatim>\<open>log.Fatalf\<close> on account of a rejected entry and goes on with the
  configuration that holds the well-formed entries.
\<close>

theorem ParseListeners_per_entry:
  "ParseListeners entries cfg = (cfg', rejected, err) \<Longrightarrow>
     Listeners cfg' =
       Listeners cfg @ map projr (filter (\<lambda>r. \<not> isl r) (map parseListener entries))
     \<and> rejected = map projl (filter isl (map parseListener entries))
     \<and> err = None
     \<and> (\<forall>entry. length (strings_Split entry CHR '','') < 3 \<longrightarrow> isl (parseListener entry))
     \<and> (\<forall>name port parser p.
           CHR '','' \<notin> set name \<and> CHR '','' \<notin> set port \<and> CHR '','' \<notin> set parser
           \<and> parsePort port = Some p \<longrightarrow>
           parseListener (name @ CHR '','' # port @ CHR '','' # parser)
             = Inr \<lparr>Name = name, Parser = parser, Port = p\<rparr>)
     \<and> (IsValid cfg = None \<and> known_transport (BrokerType cfg) \<longrightarrow>
           rootHandler cfg entries = BrokerChosen cfg' rejected)"
proof -
  assume run: "ParseListeners entries cfg = (cfg', rejected, err)"
  have loop: "ParseListeners_loop entries (Listeners cfg, []) =
     (Listeners cfg @ map projr (filter (\<lambda>r. \<not> isl r) (map parseListener entries)),
      map projl (filter isl (map parseListener entries)))"
    by (simp add: ParseListeners_loop_eq)
  from run loop have cfg': "cfg' = cfg\<lparr>Listeners :=
       Listeners cfg @ map projr (filter (\<lambda>r. \<not> isl r) (map parseListener entries))\<rparr>"
    and rej: "rejected = map projl (filter isl (map parseListener entries))"
    and err: "err = None"
    by (simp_all add: ParseListeners_def)
  have added: "Listeners cfg' =
       Listeners cfg @ map projr (filter (\<lambda>r. \<not> isl r) (map parseListener entries))"
    by (simp add: cfg')
  have root: "IsValid cfg = None \<and> known_transport (BrokerType cfg) \<longrightarrow>
           rootHandler cfg entries = BrokerChosen cfg' rejected"
    using run err by (auto simp: rootHandler_def cfg')
  show ?thesis
    using added rej err root parseListener_short parseListener_three by blast
qed

theorem ParseListeners_per_entry_witness:
  "ParseListeners test_listeners (test_config\<lparr>BrokerType := ''grpc''\<rparr>) =
     (test_config\<lparr>BrokerType := ''grpc'', Listeners :=
        [\<lparr>Name = ''Netflow-5'', Parser = ''Netflow5UdpParser'', Port = 18877\<rparr>,
         \<lparr>Name = ''Netflow-9'', Parser = ''Netflow9UdpParser'', Port = 14729\<rparr>,
         \<lparr>Name = ''Graphite'', Parser = ''ForwardParser'', Port = 12003\<rparr>,
         \<lparr>Name = ''NXOS'', Parser = ''NxosGrpcParser'', Port = 50000\<rparr>]\<rparr>,
      [Wrap ''invalid listener'' (Errorf ''Wrong1,1000''),
       Wrap ''invalid listener'' (Errorf ''Wrong2,1001'')],
      None)
   \<and> length (strings_Split ''Wrong1,1000'' CHR '','') < 3
   \<and> isl (parseListener ''Wrong1,1000'')
   \<and> rootHandler (test_config\<lparr>BrokerType := ''grpc''\<rparr>) test_listeners =
       BrokerChosen (test_config\<lparr>BrokerType := ''grpc'', Listeners :=
        [\<lparr>Name = ''Netflow-5'', Parser = ''Netflow5UdpParser'', Port = 18877\<rparr>,
         \<lparr>Name = ''Netflow-9'', Parser = ''Netflow9UdpParser'', Port = 14729\<rparr>,
         \<lparr>Name = ''Graphite'', Parser = ''ForwardParser'', Port = 12003\<rparr>,
         \<lparr>Name = ''NXOS'', Parser = ''NxosGrpcParser'', Port = 50000\<rparr>]\<rparr>)
        [Wrap ''invalid listener'' (Errorf ''Wrong1,1000''),
         Wrap ''invalid listener'' (Errorf ''Wrong2,1001'')]"
proof -
  have run: "ParseListeners test_listeners (test_config\<lparr>BrokerType := ''grpc''\<rparr>) =
     (test_config\<lparr>BrokerType := ''grpc'', Listeners :=
        [\<lparr>Name = ''Netflow-5'', Parser = ''Netflow5UdpParser'', Port = 18877\<rparr>,
         \<lparr>Name = ''Netflow-9'', Parser = ''Netflow9UdpParser'', Port = 14729\<rparr>,
         \<lparr>Name = ''Graphite'', Parser = ''ForwardParser'', Port = 12003\<rparr>,
         \<lparr>Name = ''NXOS'', Parser = ''NxosGrpcParser'', Port = 50000\<rparr>]\<rparr>,
      [Wrap ''invalid listener'' (Errorf ''Wrong1,1000''),
       Wrap ''invalid listener'' (Errorf ''Wrong2,1001'')],
      None)"
    by (simp add: ParseListeners_def test_listeners_def test_config_def parseListener_def
        parsePort_def digit_of_def)
  have valid: "IsValid (test_config\<lparr>BrokerType := ''grpc''\<rparr>) = None"
    by (simp add: IsValid_def test_config_def)
  have known: "known_transport (BrokerType (test_config\<lparr>BrokerType := ''grpc''\<rparr>))"
    by (simp add: known_transport_def)
  have short: "length (strings_Split ''Wrong1,1000'' CHR '','') < 3" by simp
  from ParseListeners_per_entry [OF run] valid known short run show ?thesis
    by simp
qed

section \<open>Sending on the Sink stream\<close>

lemma added_append [simp]: "added cli (cli'\<lparr>events := events cli @ evs\<rparr>) = evs"
  by (simp add: added_def)

lemma initSinkStream_events:
  "initSinkStream opened cli =
     (cli\<lparr>sinkStream := (case opened of Inl err \<Rightarrow> None | Inr stream \<Rightarrow> Some stream),
          events := events cli @ Lock sinkMutex
            # (case sinkStream cli of Some old \<Rightarrow> [CloseSend old] | None \<Rightarrow> [])
            @ [SinkStreaming opened, Unlock sinkMutex]\<rparr>,
      case opened of
        Inl err \<Rightarrow> Some (Wrap ''cannot initialize Sink API Stream: %v'' err)
      | Inr stream \<Rightarrow> None)"
  by (simp add: initSinkStream_def emit_def Let_def split: option.splits sum.splits)

lemma Send_locked_events:
  "sinkStream cli = Some stream \<Longrightarrow>
   Send_locked sent msg cli =
     Inr (cli\<lparr>metrics := (metrics cli)
               ((if sent = None then SinkMsgDeliverySucceeded else SinkMsgDeliveryFailed,
                 msg_SystemId msg, msg_ModuleId msg) :=
                 Suc (metrics cli (if sent = None then SinkMsgDeliverySucceeded
                                   else SinkMsgDeliveryFailed,
                                   msg_SystemId msg, msg_ModuleId msg))),
              events := events cli
                @ [Lock sinkMutex, SinkStream_Send stream msg sent, Unlock sinkMutex]\<rparr>,
          case sent of
            None \<Rightarrow> None
          | Some err \<Rightarrow> Some (if err = IoEOF then Errorf ''server unreachable'' else err))"
  by (simp add: Send_locked_def emit_def Inc_def Let_def split: option.splits)


text \<open>
  Claim C6. For every call of \<^verbatim>\<open>Send\<close>: the call returns (it does not panic) with the
  events it added; when the Sink stream is absent or the connection is not Ready it makes
  exactly one attempt to open the stream, and none otherwise; when that attempt fails,
  \<^verbatim>\<open>Send\<close> returns the error of the attempt, nothing is sent on a stream and no
  counter changes; in every other case the call ends with the send of the message on the
  client's stream between the lock and the unlock of the Sink mutex, and nothing was
  sent before.
\<close>

theorem Send_reinit_once:
  "\<exists>cli' err.
     Send state opened sent msg cli = Inr (cli', err)
     \<and> events cli' = events cli @ added cli cli'
     \<and> length (filter is_SinkStreaming (added cli cli'))
         = (if sinkStream cli = None \<or> state \<noteq> Ready then 1 else 0)
     \<and> ((sinkStream cli = None \<or> state \<noteq> Ready) \<and> isl opened \<longrightarrow>
           err = Some (Wrap ''cannot initialize Sink API Stream: %v'' (projl opened))
           \<and> filter is_SinkStream_Send (added cli cli') = []
           \<and> metrics cli' = metrics cli)
     \<and> (\<not> ((sinkStream cli = None \<or> state \<noteq> Ready) \<and> isl opened) \<longrightarrow>
           (\<exists>before stream.
              added cli cli'
                = before @ [Lock sinkMutex, SinkStream_Send stream msg sent, Unlock sinkMutex]
              \<and> sinkStream cli' = Some stream
              \<and> filter is_SinkStream_Send before = []))"
proof -
  let ?needs = "sinkStream cli = None \<or> state \<noteq> Ready"
  consider (ready) stream where "sinkStream cli = Some stream" "state = Ready"
    | (failed) e where "?needs" "opened = Inl e"
    | (restarted) stream where "?needs" "opened = Inr stream"
    by (cases opened; cases "sinkStream cli") auto
  then show ?thesis
  proof cases
    case ready
    then show ?thesis
      by (simp add: Send_def Send_locked_events)
  next
    case failed
    then show ?thesis
      by (auto simp: Send_def initSinkStream_events split: option.splits)
  next
    case restarted
    let ?before = "Lock sinkMutex
            # (case sinkStream cli of Some old \<Rightarrow> [CloseSend old] | None \<Rightarrow> [])
            @ [SinkStreaming opened, Unlock sinkMutex, Log LogWarn ''Sink API stream restarted'']"
    have nosend: "filter is_SinkStream_Send ?before = []"
      by (simp split: option.splits)
    have one: "length (filter is_SinkStreaming ?before) = 1"
      by (simp split: option.splits)
    define mid where "mid = emit (Log LogWarn ''Sink API stream restarted'')
          (fst (initSinkStream opened cli))"
    from restarted have run: "Send state opened sent msg cli = Send_locked sent msg mid"
      by (auto simp: Send_def initSinkStream_events mid_def)
    have stream: "sinkStream mid = Some stream"
      using restarted by (simp add: initSinkStream_events emit_def mid_def)
    have evs: "events mid = events cli @ ?before"
      by (simp add: initSinkStream_events emit_def mid_def)
    have needs: "sinkStream cli = None \<or> state \<noteq> Ready"
      using restarted by simp
    have opened: "\<not> isl opened"
      using restarted by simp
    show ?thesis
      unfolding run Send_locked_events [OF stream]
      using nosend one needs opened stream
      by (auto simp: evs added_def intro!: exI [of _ ?before])
  qed
qed

theorem Send_reinit_once_witness:
  "(case Send Idle (Inl (Status Unavailable)) None sink_message client0 of
      Inl p \<Rightarrow> False
    | Inr (cli', err) \<Rightarrow>
        isl (Inl (Status Unavailable) :: error + nat)
        \<and> err = Some (Wrap ''cannot initialize Sink API Stream: %v'' (Status Unavailable))
        \<and> events cli' = [Lock sinkMutex, CloseSend 0,
                          SinkStreaming (Inl (Status Unavailable)), Unlock sinkMutex])
   \<and> (case Send TransientFailure (Inr 7) None sink_message client0 of
      Inl p \<Rightarrow> False
    | Inr (cli', err) \<Rightarrow>
        err = None \<and> sinkStream cli' = Some 7
        \<and> events cli' = [Lock sinkMutex, CloseSend 0, SinkStreaming (Inr 7), Unlock sinkMutex,
                          Log LogWarn ''Sink API stream restarted'',
                          Lock sinkMutex, SinkStream_Send 7 sink_message None,
                          Unlock sinkMutex])
   \<and> (case Send Ready (Inr 7) (Some IoEOF) sink_message client0 of
      Inl p \<Rightarrow> False
    | Inr (cli', err) \<Rightarrow>
        err = Some (Errorf ''server unreachable'') \<and> sinkStream cli' = Some 0
        \<and> events cli' = [Lock sinkMutex, SinkStream_Send 0 sink_message (Some IoEOF),
                          Unlock sinkMutex])"
  using Send_reinit_once [of Idle "Inl (Status Unavailable)" None sink_message client0]
    Send_reinit_once [of TransientFailure "Inr 7" None sink_message client0]
    Send_reinit_once [of Ready "Inr 7" "Some IoEOF" sink_message client0]
  by (simp add: Send_def initSinkStream_def Send_locked_def emit_def Inc_def client0_def)

text \<open>
  Claim C3 asks that every call of \<^verbatim>\<open>Send\<close> that returns an error increments the
  counter of failed deliveries. The code does not when the Sink stream cannot be
  reopened: with no stream and a failing \<^verbatim>\<open>SinkStreaming\<close>, \<^verbatim>\<open>Send\<close> returns the
  error of \<^verbatim>\<open>initSinkStream\<close> and the counter of failed deliveries of the message's
  \<^verbatim>\<open>(SystemId, ModuleId)\<close> is what it was, zero.
\<close>

theorem Send_init_failure_not_counted:
  "(case Send Ready (Inl (Status Unavailable)) None sink_message (client0\<lparr>sinkStream := None\<rparr>) of
      Inl p \<Rightarrow> False
    | Inr (cli', err) \<Rightarrow>
        err = Some (Wrap ''cannot initialize Sink API Stream: %v'' (Status Unavailable))
        \<and> metrics cli' (SinkMsgDeliveryFailed, msg_SystemId sink_message, msg_ModuleId sink_message)
            = metrics client0
                (SinkMsgDeliveryFailed, msg_SystemId sink_message, msg_ModuleId sink_message)
        \<and> metrics cli' (SinkMsgDeliveryFailed, msg_SystemId sink_message, msg_ModuleId sink_message)
            = 0)"
  by (simp add: Send_def initSinkStream_def emit_def client0_def)

section \<open>Dispatch of RPC requests\<close>

lemma sendResponse_events:
  "events (fst (sendResponse state sent response cli)) =
     events cli @ (case (if state = Ready then rpcStream cli else None) of
                     Some stream \<Rightarrow>
                       [Lock rpcMutex, RpcStream_Send stream response sent, Unlock rpcMutex]
                   | None \<Rightarrow> [])"
  by (simp add: sendResponse_def emit_def Inc_def Let_def split: option.splits)

lemma sendResponse_keeps:
  "rpcStream (fst (sendResponse state sent response cli)) = rpcStream cli"
  "sinkStream (fst (sendResponse state sent response cli)) = sinkStream cli"
  "config (fst (sendResponse state sent response cli)) = config cli"
  by (simp_all add: sendResponse_def emit_def Inc_def Let_def split: option.splits)

lemma sendResponse_metrics:
  "metrics (fst (sendResponse state sent response cli)) =
     (metrics cli)
       ((if state = Ready \<and> rpcStream cli \<noteq> None \<and> sent = None
         then RPCResSentSucceeded else RPCResSentFailed,
         res_SystemId response, res_ModuleId response) :=
        Suc (metrics cli
          (if state = Ready \<and> rpcStream cli \<noteq> None \<and> sent = None
           then RPCResSentSucceeded else RPCResSentFailed,
           res_SystemId response, res_ModuleId response)))"
  by (auto simp: sendResponse_def emit_def Inc_def Let_def split: option.splits)

lemma processRequest_unregistered:
  "modules (req_ModuleId request) = None \<Longrightarrow>
   processRequest modules state sent request cli =
     cli\<lparr>events := events cli @
       [Log LogDebug ''Received RPC request with ID %s for module %s at location %s'',
        Log LogError
          ''Cannot find implementation for module %s, ignoring request with ID %s'']\<rparr>"
  by (simp add: processRequest_def emit_def)

lemma processRequest_empty:
  "modules (req_ModuleId request) = Some module \<Longrightarrow> module request = None \<Longrightarrow>
   processRequest modules state sent request cli =
     Inc RPCReqProcessedFailed (req_SystemId request) (req_ModuleId request)
       (cli\<lparr>events := events cli @
         [Log LogDebug ''Received RPC request with ID %s for module %s at location %s'',
          Go RpcWorker, Execute (req_ModuleId request) request]\<rparr>)"
  by (simp add: processRequest_def emit_def)

lemma processRequest_response:
  "modules (req_ModuleId request) = Some module \<Longrightarrow> module request = Some response \<Longrightarrow>
   processRequest modules state sent request cli =
     fst (sendResponse state sent response
       (Inc RPCReqProcessedSucceeded (req_SystemId request) (req_ModuleId request)
         (cli\<lparr>events := events cli @
           [Log LogDebug ''Received RPC request with ID %s for module %s at location %s'',
            Go RpcWorker, Execute (req_ModuleId request) request]\<rparr>)))"
  by (simp add: processRequest_def emit_def)

text \<open>
  Claim C4. For every received RPC request, \<^verbatim>\<open>processRequest\<close> looks the module up by
  \<^verbatim>\<open>ModuleId\<close>. When none is registered, the request is logged and dropped: two log
  lines, no call of \<^verbatim>\<open>Execute\<close>, nothing sent, no counter changed. When the module's
  \<^verbatim>\<open>Execute\<close> returns nil, nothing is sent and the processed-failed counter of the
  request's \<^verbatim>\<open>(SystemId, ModuleId)\<close> goes up by one. When it returns a response,
  the processed-succeeded counter goes up by one (processed-failed stays) and
  \<^verbatim>\<open>sendResponse\<close> is called with that response, which is the one message sent when
  the connection is Ready and the stream is there.
\<close>

theorem processRequest_dispatch:
  "(modules (req_ModuleId request) = None \<longrightarrow>
      processRequest modules state sent request cli =
        cli\<lparr>events := events cli @
          [Log LogDebug ''Received RPC request with ID %s for module %s at location %s'',
           Log LogError
             ''Cannot find implementation for module %s, ignoring request with ID %s'']\<rparr>
      \<and> filter is_RpcStream_Send (added cli (processRequest modules state sent request cli)) = []
      \<and> filter is_Execute (added cli (processRequest modules state sent request cli)) = []
      \<and> metrics (processRequest modules state sent request cli) = metrics cli)
   \<and> (\<forall>module. modules (req_ModuleId request) = Some module \<and> module request = None \<longrightarrow>
      processRequest modules state sent request cli =
        Inc RPCReqProcessedFailed (req_SystemId request) (req_ModuleId request)
          (cli\<lparr>events := events cli @
            [Log LogDebug ''Received RPC request with ID %s for module %s at location %s'',
             Go RpcWorker, Execute (req_ModuleId request) request]\<rparr>)
      \<and> filter is_RpcStream_Send (added cli (processRequest modules state sent request cli)) = []
      \<and> metrics (processRequest modules state sent request cli)
            (RPCReqProcessedFailed, req_SystemId request, req_ModuleId request)
          = Suc (metrics cli (RPCReqProcessedFailed, req_SystemId request, req_ModuleId request)))
   \<and> (\<forall>module response.
        modules (req_ModuleId request) = Some module \<and> module request = Some response \<longrightarrow>
      processRequest modules state sent request cli =
        fst (sendResponse state sent response
          (Inc RPCReqProcessedSucceeded (req_SystemId request) (req_ModuleId request)
            (cli\<lparr>events := events cli @
              [Log LogDebug ''Received RPC request with ID %s for module %s at location %s'',
               Go RpcWorker, Execute (req_ModuleId request) request]\<rparr>)))
      \<and> metrics (processRequest modules state sent request cli)
            (RPCReqProcessedSucceeded, req_SystemId request, req_ModuleId request)
          = Suc (metrics cli
              (RPCReqProcessedSucceeded, req_SystemId request, req_ModuleId request))
      \<and> metrics (processRequest modules state sent request cli)
            (RPCReqProcessedFailed, req_SystemId request, req_ModuleId request)
          = metrics cli (RPCReqProcessedFailed, req_SystemId request, req_ModuleId request)
      \<and> filter is_RpcStream_Send (added cli (processRequest modules state sent request cli))
          = (case (if state = Ready then rpcStream cli else None) of
               Some stream \<Rightarrow> [RpcStream_Send stream response sent]
             | None \<Rightarrow> []))"
proof (intro conjI impI allI)
  assume "modules (req_ModuleId request) = None"
  then have run: "processRequest modules state sent request cli =
        cli\<lparr>events := events cli @
          [Log LogDebug ''Received RPC request with ID %s for module %s at location %s'',
           Log LogError
             ''Cannot find implementation for module %s, ignoring request with ID %s'']\<rparr>"
    by (rule processRequest_unregistered)
  show "processRequest modules state sent request cli =
        cli\<lparr>events := events cli @
          [Log LogDebug ''Received RPC request with ID %s for module %s at location %s'',
           Log LogError
             ''Cannot find implementation for module %s, ignoring request with ID %s'']\<rparr>"
    by (rule run)
  show "filter is_RpcStream_Send (added cli (processRequest modules state sent request cli)) = []"
    by (simp add: run added_def)
  show "filter is_Execute (added cli (processRequest modules state sent request cli)) = []"
    by (simp add: run added_def)
  show "metrics (processRequest modules state sent request cli) = metrics cli"
    by (simp add: run)
next
  fix module
  assume "modules (req_ModuleId request) = Some module \<and> module request = None"
  then have run: "processRequest modules state sent request cli =
        Inc RPCReqProcessedFailed (req_SystemId request) (req_ModuleId request)
          (cli\<lparr>events := events cli @
            [Log LogDebug ''Received RPC request with ID %s for module %s at location %s'',
             Go RpcWorker, Execute (req_ModuleId request) request]\<rparr>)"
    using processRequest_empty by blast
  show "processRequest modules state sent request cli =
        Inc RPCReqProcessedFailed (req_SystemId request) (req_ModuleId request)
          (cli\<lparr>events := events cli @
            [Log LogDebug ''Received RPC request with ID %s for module %s at location %s'',
             Go RpcWorker, Execute (req_ModuleId request) request]\<rparr>)"
    by (rule run)
  show "filter is_RpcStream_Send (added cli (processRequest modules state sent request cli)) = []"
    by (simp add: run added_def Inc_def)
  show "metrics (processRequest modules state sent request cli)
            (RPCReqProcessedFailed, req_SystemId request, req_ModuleId request)
          = Suc (metrics cli (RPCReqProcessedFailed, req_SystemId request, req_ModuleId request))"
    by (simp add: run Inc_def)
next
  fix module response
  assume "modules (req_ModuleId request) = Some module \<and> module request = Some response"
  then have run: "processRequest modules state sent request cli =
        fst (sendResponse state sent response
          (Inc RPCReqProcessedSucceeded (req_SystemId request) (req_ModuleId request)
            (cli\<lparr>events := events cli @
              [Log LogDebug ''Received RPC request with ID %s for module %s at location %s'',
               Go RpcWorker, Execute (req_ModuleId request) request]\<rparr>)))"
    using processRequest_response by blast
  show "processRequest modules state sent request cli =
        fst (sendResponse state sent response
          (Inc RPCReqProcessedSucceeded (req_SystemId request) (req_ModuleId request)
            (cli\<lparr>events := events cli @
              [Log LogDebug ''Received RPC request with ID %s for module %s at location %s'',
               Go RpcWorker, Execute (req_ModuleId request) request]\<rparr>)))"
    by (rule run)
  show "metrics (processRequest modules state sent request cli)
            (RPCReqProcessedSucceeded, req_SystemId request, req_ModuleId request)
          = Suc (metrics cli
              (RPCReqProcessedSucceeded, req_SystemId request, req_ModuleId request))"
    by (simp add: run sendResponse_metrics Inc_def)
  show "metrics (processRequest modules state sent request cli)
            (RPCReqProcessedFailed, req_SystemId request, req_ModuleId request)
          = metrics cli (RPCReqProcessedFailed, req_SystemId request, req_ModuleId request)"
    by (simp add: run sendResponse_metrics Inc_def)
  show "filter is_RpcStream_Send (added cli (processRequest modules state sent request cli))
          = (case (if state = Ready then rpcStream cli else None) of
               Some stream \<Rightarrow> [RpcStream_Send stream response sent]
             | None \<Rightarrow> [])"
    by (simp add: run sendResponse_events added_def Inc_def split: option.splits)
qed

theorem processRequest_dispatch_witness:
  "echo_registry (req_ModuleId (expired_request\<lparr>req_ModuleId := ''Nope''\<rparr>)) = None
   \<and> events (processRequest echo_registry Ready None
        (expired_request\<lparr>req_ModuleId := ''Nope''\<rparr>) client0)
      = [Log LogDebug ''Received RPC request with ID %s for module %s at location %s'',
         Log LogError
           ''Cannot find implementation for module %s, ignoring request with ID %s'']
   \<and> (\<lambda>moduleId. if moduleId = ''Echo'' then Some (\<lambda>request. None) else None)
        (req_ModuleId expired_request) = Some (\<lambda>request. None)
   \<and> metrics (processRequest
        (\<lambda>moduleId. if moduleId = ''Echo'' then Some (\<lambda>request. None) else None)
        Ready None expired_request client0) (RPCReqProcessedFailed, ''go-minion1'', ''Echo'') = 1
   \<and> filter is_RpcStream_Send (added client0 (processRequest
        (\<lambda>moduleId. if moduleId = ''Echo'' then Some (\<lambda>request. None) else None)
        Ready None expired_request client0)) = []
   \<and> echo_registry (req_ModuleId (expired_request\<lparr>req_ExpirationTime := receive_time + 10000\<rparr>))
      = Some Echo
   \<and> Echo (expired_request\<lparr>req_ExpirationTime := receive_time + 10000\<rparr>)
      = Some \<lparr>res_RpcId = ''r1'', res_ModuleId = ''Echo'', res_SystemId = ''go-minion1'',
              res_Location = ''Test'', res_RpcContent = ''olleh''\<rparr>
   \<and> filter is_RpcStream_Send (added client0 (processRequest echo_registry Ready None
        (expired_request\<lparr>req_ExpirationTime := receive_time + 10000\<rparr>) client0))
      = [RpcStream_Send 1
           \<lparr>res_RpcId = ''r1'', res_ModuleId = ''Echo'', res_SystemId = ''go-minion1'',
            res_Location = ''Test'', res_RpcContent = ''olleh''\<rparr> None]
   \<and> metrics (processRequest echo_registry Ready None
        (expired_request\<lparr>req_ExpirationTime := receive_time + 10000\<rparr>) client0)
        (RPCReqProcessedSucceeded, ''go-minion1'', ''Echo'') = 1"
proof -
  let ?nope = "expired_request\<lparr>req_ModuleId := ''Nope''\<rparr>"
  let ?null = "\<lambda>moduleId. if moduleId = ''Echo'' then Some (\<lambda>request. None) else None"
  let ?live = "expired_request\<lparr>req_ExpirationTime := receive_time + 10000\<rparr>"
  let ?olleh = "\<lparr>res_RpcId = ''r1'', res_ModuleId = ''Echo'', res_SystemId = ''go-minion1'',
              res_Location = ''Test'', res_RpcContent = ''olleh''\<rparr>"
  have ids: "req_SystemId expired_request = ''go-minion1''"
    "req_ModuleId expired_request = ''Echo''"
    by (simp_all add: expired_request_def)
  have absent: "echo_registry (req_ModuleId ?nope) = None"
    by (simp add: echo_registry_def)
  have null: "?null (req_ModuleId expired_request) = Some (\<lambda>request. None)
      \<and> (\<lambda>request. None) expired_request = None"
    by (simp add: ids)
  have live: "echo_registry (req_ModuleId ?live) = Some Echo \<and> Echo ?live = Some ?olleh"
    by (simp add: echo_registry_def Echo_def expired_request_def)
  note dropped = processRequest_dispatch
      [of echo_registry ?nope Ready None client0, THEN conjunct1, rule_format, OF absent]
  note empty = processRequest_dispatch
      [of ?null expired_request Ready None client0, THEN conjunct2, THEN conjunct1,
       rule_format, OF null]
  note answered = processRequest_dispatch
      [of echo_registry ?live Ready None client0, THEN conjunct2, THEN conjunct2,
       rule_format, OF live]
  have c2: "events (processRequest echo_registry Ready None ?nope client0)
      = [Log LogDebug ''Received RPC request with ID %s for module %s at location %s'',
         Log LogError
           ''Cannot find implementation for module %s, ignoring request with ID %s'']"
    using dropped [THEN conjunct1] by (simp add: client0_def)
  have c4: "metrics (processRequest ?null Ready None expired_request client0)
      (RPCReqProcessedFailed, ''go-minion1'', ''Echo'') = 1"
    using empty [THEN conjunct2, THEN conjunct2] by (simp add: client0_def ids)
  have c5: "filter is_RpcStream_Send (added client0
      (processRequest ?null Ready None expired_request client0)) = []"
    using empty by blast
  have c8: "filter is_RpcStream_Send (added client0
      (processRequest echo_registry Ready None ?live client0)) = [RpcStream_Send 1 ?olleh None]"
    using answered [THEN conjunct2, THEN conjunct2, THEN conjunct2] by (simp add: client0_def)
  have c9: "metrics (processRequest echo_registry Ready None ?live client0)
        (RPCReqProcessedSucceeded, ''go-minion1'', ''Echo'') = 1"
    using answered [THEN conjunct2, THEN conjunct1] by (simp add: client0_def ids)
  from absent c2 null c4 c5 live c8 c9 show ?thesis by blast
qed

section \<open>Expired requests\<close>

text \<open>
  Claim C1, as stated, fails on the code: a request whose expiration lies one second
  before the time of receipt, for the registered module of the spec's scenario, has
  \<^verbatim>\<open>Execute\<close> called and its response sent, and no failure counter moves.
\<close>

theorem processRequest_expired_counterexample:
  "req_ExpirationTime expired_request < receive_time
   \<and> events (processRequest echo_registry Ready None expired_request client0)
      = [Log LogDebug ''Received RPC request with ID %s for module %s at location %s'',
         Go RpcWorker, Execute ''Echo'' expired_request,
         Lock rpcMutex,
         RpcStream_Send 1
           \<lparr>res_RpcId = ''r1'', res_ModuleId = ''Echo'', res_SystemId = ''go-minion1'',
            res_Location = ''Test'', res_RpcContent = ''olleh''\<rparr> None,
         Unlock rpcMutex]
   \<and> metrics (processRequest echo_registry Ready None expired_request client0)
        (RPCReqProcessedFailed, ''go-minion1'', ''Echo'') = 0
   \<and> metrics (processRequest echo_registry Ready None expired_request client0)
        (RPCReqReceivedFailed, ''go-minion1'', ''Echo'') = 0
   \<and> metrics (processRequest echo_registry Ready None expired_request client0)
        (RPCResSentFailed, ''go-minion1'', ''Echo'') = 0
   \<and> metrics (processRequest echo_registry Ready None expired_request client0)
        (RPCReqProcessedSucceeded, ''go-minion1'', ''Echo'') = 1"
  by (simp add: echo_registry_def Echo_def expired_request_def client0_def processRequest_def
      sendResponse_def emit_def Inc_def receive_time_def)

text \<open>
  Claim C1, amended. The gRPC client does not read \<^verbatim>\<open>Expiration\<close>: a request whose
  deadline has passed at receive time is dispatched like any other. When its module is
  registered and \<^verbatim>\<open>Execute\<close> returns a response, \<^verbatim>\<open>Execute\<close> has been called on
  the request, the response is what \<^verbatim>\<open>sendResponse\<close> sends, and processed-succeeded
  (not processed-failed) is incremented; when no module is registered no counter
  changes; and with a module whose answer does not depend on the deadline, the counters
  and the messages sent are the same whatever the deadline.
\<close>

theorem processRequest_ignores_Expiration:
  "req_ExpirationTime request < now \<Longrightarrow>
     (\<forall>module response.
        modules (req_ModuleId request) = Some module \<and> module request = Some response \<longrightarrow>
          Execute (req_ModuleId request) request
            \<in> set (added cli (processRequest modules state sent request cli))
          \<and> filter is_RpcStream_Send (added cli (processRequest modules state sent request cli))
              = (case (if state = Ready then rpcStream cli else None) of
                   Some stream \<Rightarrow> [RpcStream_Send stream response sent]
                 | None \<Rightarrow> [])
          \<and> metrics (processRequest modules state sent request cli)
                (RPCReqProcessedSucceeded, req_SystemId request, req_ModuleId request)
              = Suc (metrics cli
                  (RPCReqProcessedSucceeded, req_SystemId request, req_ModuleId request))
          \<and> metrics (processRequest modules state sent request cli)
                (RPCReqProcessedFailed, req_SystemId request, req_ModuleId request)
              = metrics cli (RPCReqProcessedFailed, req_SystemId request, req_ModuleId request))
     \<and> (modules (req_ModuleId request) = None \<longrightarrow>
          metrics (processRequest modules state sent request cli) = metrics cli)
     \<and> (\<forall>module deadline.
          modules (req_ModuleId request) = Some module
          \<and> module (request\<lparr>req_ExpirationTime := deadline\<rparr>) = module request \<longrightarrow>
            metrics (processRequest modules state sent
                (request\<lparr>req_ExpirationTime := deadline\<rparr>) cli)
              = metrics (processRequest modules state sent request cli)
            \<and> filter is_RpcStream_Send (added cli (processRequest modules state sent
                (request\<lparr>req_ExpirationTime := deadline\<rparr>) cli))
              = filter is_RpcStream_Send
                  (added cli (processRequest modules state sent request cli)))"
proof (intro conjI impI allI)
  fix module response
  assume reg: "modules (req_ModuleId request) = Some module \<and> module request = Some response"
  then have run: "processRequest modules state sent request cli =
        fst (sendResponse state sent response
          (Inc RPCReqProcessedSucceeded (req_SystemId request) (req_ModuleId request)
            (cli\<lparr>events := events cli @
              [Log LogDebug ''Received RPC request with ID %s for module %s at location %s'',
               Go RpcWorker, Execute (req_ModuleId request) request]\<rparr>)))"
    using processRequest_response by blast
  show "Execute (req_ModuleId request) request
            \<in> set (added cli (processRequest modules state sent request cli))"
    by (simp add: run sendResponse_events added_def Inc_def)
  show "filter is_RpcStream_Send (added cli (processRequest modules state sent request cli))
              = (case (if state = Ready then rpcStream cli else None) of
                   Some stream \<Rightarrow> [RpcStream_Send stream response sent]
                 | None \<Rightarrow> [])"
    by (simp add: run sendResponse_events added_def Inc_def split: option.splits)
  show "metrics (processRequest modules state sent request cli)
                (RPCReqProcessedSucceeded, req_SystemId request, req_ModuleId request)
              = Suc (metrics cli
                  (RPCReqProcessedSucceeded, req_SystemId request, req_ModuleId request))"
    by (simp add: run sendResponse_metrics Inc_def)
  show "metrics (processRequest modules state sent request cli)
                (RPCReqProcessedFailed, req_SystemId request, req_ModuleId request)
              = metrics cli (RPCReqProcessedFailed, req_SystemId request, req_ModuleId request)"
    by (simp add: run sendResponse_metrics Inc_def)
next
  assume "modules (req_ModuleId request) = None"
  then show "metrics (processRequest modules state sent request cli) = metrics cli"
    by (simp add: processRequest_unregistered)
next
  fix module deadline
  assume same: "modules (req_ModuleId request) = Some module
          \<and> module (request\<lparr>req_ExpirationTime := deadline\<rparr>) = module request"
  then show "metrics (processRequest modules state sent
                (request\<lparr>req_ExpirationTime := deadline\<rparr>) cli)
              = metrics (processRequest modules state sent request cli)"
    by (cases "module request")
      (simp_all add: processRequest_def sendResponse_metrics Inc_def emit_def Let_def)
  from same show "filter is_RpcStream_Send (added cli (processRequest modules state sent
                (request\<lparr>req_ExpirationTime := deadline\<rparr>) cli))
              = filter is_RpcStream_Send
                  (added cli (processRequest modules state sent request cli))"
    by (cases "module request")
      (simp_all add: processRequest_def sendResponse_events Inc_def emit_def added_def Let_def)
qed

theorem processRequest_ignores_Expiration_witness:
  "req_ExpirationTime expired_request < receive_time
   \<and> echo_registry (req_ModuleId expired_request) = Some Echo
   \<and> Execute (req_ModuleId expired_request) expired_request
       \<in> set (added client0 (processRequest echo_registry Ready None expired_request client0))
   \<and> filter is_RpcStream_Send
        (added client0 (processRequest echo_registry Ready None expired_request client0))
      = [RpcStream_Send 1
           \<lparr>res_RpcId = ''r1'', res_ModuleId = ''Echo'', res_SystemId = ''go-minion1'',
            res_Location = ''Test'', res_RpcContent = ''olleh''\<rparr> None]
   \<and> metrics (processRequest echo_registry Ready None
        (expired_request\<lparr>req_ExpirationTime := receive_time + 10000\<rparr>) client0)
      = metrics (processRequest echo_registry Ready None expired_request client0)"
proof -
  let ?olleh = "\<lparr>res_RpcId = ''r1'', res_ModuleId = ''Echo'', res_SystemId = ''go-minion1'',
              res_Location = ''Test'', res_RpcContent = ''olleh''\<rparr>"
  have expired: "req_ExpirationTime expired_request < receive_time"
    by (simp add: expired_request_def receive_time_def)
  have registered: "echo_registry (req_ModuleId expired_request) = Some Echo"
    by (simp add: echo_registry_def expired_request_def)
  have response: "Echo expired_request = Some ?olleh"
    by (simp add: Echo_def expired_request_def)
  have same: "Echo (expired_request\<lparr>req_ExpirationTime := receive_time + 10000\<rparr>)
      = Echo expired_request"
    by (simp add: Echo_def)
  note ignored = processRequest_ignores_Expiration
      [OF expired, of echo_registry client0 Ready None]
  note answered = ignored [THEN conjunct1, rule_format, OF conjI [OF registered response]]
  note independent = ignored [THEN conjunct2, THEN conjunct2, rule_format,
      OF conjI [OF registered same]]
  have c3: "Execute (req_ModuleId expired_request) expired_request
       \<in> set (added client0 (processRequest echo_registry Ready None expired_request client0))"
    using answered by blast
  have c4: "filter is_RpcStream_Send
        (added client0 (processRequest echo_registry Ready None expired_request client0))
      = [RpcStream_Send 1 ?olleh None]"
    using answered [THEN conjunct2, THEN conjunct1] by (simp add: client0_def)
  have c5: "metrics (processRequest echo_registry Ready None
        (expired_request\<lparr>req_ExpirationTime := receive_time + 10000\<rparr>) client0)
      = metrics (processRequest echo_registry Ready None expired_request client0)"
    using independent by blast
  from expired registered c3 c4 c5 show ?thesis by blast
qed

section \<open>The receive loop\<close>

text \<open>
  Claim C10 asks that the request read in the error branch of the receive loop be
  non-nil. The code reads \<^verbatim>\<open>request.SystemId\<close> there without a check: when
  \<^verbatim>\<open>Recv\<close> returns a nil request with an error that is not \<^verbatim>\<open>io.EOF\<close> (a cancelled
  stream, say), the loop logs the error and then panics on the nil pointer.
\<close>

theorem rpcLoop_Recv_error_nil_request:
  "rpcLoop echo_registry
     [\<lparr>step_state = Ready, step_recv = (None, Some (Status Canceled)),
       step_worker_state = Ready, step_worker_sent = None\<rparr>] client0
   = Inl (NilDereference (client0\<lparr>events :=
        [RpcStream_Recv 1 None (Some (Status Canceled)),
         Log LogError ''Cannot receive RPC Request: %v'']\<rparr>))"
  by (simp add: emit_def client0_def)

section \<open>The NX-OS module without a listener\<close>

text \<open>
  Claim C9. When the lookup of the NX-OS listener finds none, that is, when the
  configuration has no listener whose parser is the NX-OS one
  (\<^verbatim>\<open>NxosGrpcParser\<close>), or when the listener found has port 0, \<^verbatim>\<open>Start\<close> of the NX-OS
  module logs one warning, creates no server, asks for no TCP listener, leaves the
  module as it was and returns nil. (With a listener on a port other than 0 it does
  create the server.)
\<close>

theorem NxosGrpcModule_Start_idle:
  "((GetListenerByParser cfg ''NxosGrpcParser'' = None
     \<or> (\<forall>listener\<in>set (Listeners cfg). GetParser listener \<noteq> ''NxosGrpcParser'')
     \<or> (\<exists>listener. GetListenerByParser cfg ''NxosGrpcParser'' = Some listener
                     \<and> Port listener = 0)) \<longrightarrow>
      NxosGrpcModule_Start listened cfg broker module
        = (module, [Warnf ''NX-OS Telemetry Module disabled''], None))
   \<and> ((\<exists>listener. GetListenerByParser cfg ''NxosGrpcParser'' = Some listener
                     \<and> Port listener \<noteq> 0) \<longrightarrow>
      NewServer \<in> set (fst (snd (NxosGrpcModule_Start listened cfg broker module)))
      \<and> nx_server (fst (NxosGrpcModule_Start listened cfg broker module)))"
proof (intro conjI impI)
  assume "GetListenerByParser cfg ''NxosGrpcParser'' = None
     \<or> (\<forall>listener\<in>set (Listeners cfg). GetParser listener \<noteq> ''NxosGrpcParser'')
     \<or> (\<exists>listener. GetListenerByParser cfg ''NxosGrpcParser'' = Some listener
                     \<and> Port listener = 0)"
  then consider (none) "GetListenerByParser cfg ''NxosGrpcParser'' = None"
    | (zero) listener where "GetListenerByParser cfg ''NxosGrpcParser'' = Some listener"
        "Port listener = 0"
    by (auto simp: GetListenerByParser_def GetListenerByParser_in_None)
  then show "NxosGrpcModule_Start listened cfg broker module
        = (module, [Warnf ''NX-OS Telemetry Module disabled''], None)"
    by cases (simp_all add: NxosGrpcModule_Start_def)
next
  assume "\<exists>listener. GetListenerByParser cfg ''NxosGrpcParser'' = Some listener
                     \<and> Port listener \<noteq> 0"
  then obtain listener where found: "GetListenerByParser cfg ''NxosGrpcParser'' = Some listener"
    and port: "Port listener \<noteq> 0" by blast
  show "NewServer \<in> set (fst (snd (NxosGrpcModule_Start listened cfg broker module)))"
    using found port by (simp add: NxosGrpcModule_Start_def Let_def split: option.splits)
  show "nx_server (fst (NxosGrpcModule_Start listened cfg broker module))"
    using found port by (simp add: NxosGrpcModule_Start_def Let_def split: option.splits)
qed

theorem NxosGrpcModule_Start_idle_witness:
  "GetListenerByParser test_config ''NxosGrpcParser'' = None
   \<and> NxosGrpcModule_Start None test_config 0 idle_module
      = (idle_module, [Warnf ''NX-OS Telemetry Module disabled''], None)
   \<and> GetListenerByParser
        (test_config\<lparr>Listeners := [\<lparr>Name = ''NXOS'', Parser = ''NxosGrpcParser'', Port = 0\<rparr>]\<rparr>)
        ''NxosGrpcParser'' = Some \<lparr>Name = ''NXOS'', Parser = ''NxosGrpcParser'', Port = 0\<rparr>
   \<and> NxosGrpcModule_Start None
        (test_config\<lparr>Listeners := [\<lparr>Name = ''NXOS'', Parser = ''NxosGrpcParser'', Port = 0\<rparr>]\<rparr>)
        0 idle_module
      = (idle_module, [Warnf ''NX-OS Telemetry Module disabled''], None)
   \<and> GetListenerByParser
        (test_config\<lparr>Listeners :=
           [\<lparr>Name = ''NXOS'', Parser = ''NxosGrpcParser'', Port = 50000\<rparr>]\<rparr>)
        ''NxosGrpcParser'' = Some \<lparr>Name = ''NXOS'', Parser = ''NxosGrpcParser'', Port = 50000\<rparr>
   \<and> nx_server (fst (NxosGrpcModule_Start None
        (test_config\<lparr>Listeners :=
           [\<lparr>Name = ''NXOS'', Parser = ''NxosGrpcParser'', Port = 50000\<rparr>]\<rparr>)
        0 idle_module))"
proof -
  let ?zero = "test_config\<lparr>Listeners :=
      [\<lparr>Name = ''NXOS'', Parser = ''NxosGrpcParser'', Port = 0\<rparr>]\<rparr>"
  let ?bound = "test_config\<lparr>Listeners :=
      [\<lparr>Name = ''NXOS'', Parser = ''NxosGrpcParser'', Port = 50000\<rparr>]\<rparr>"
  have none: "GetListenerByParser test_config ''NxosGrpcParser'' = None"
    by (simp add: GetListenerByParser_def test_config_def GetParser_def)
  then have unmatched:
    "\<forall>listener\<in>set (Listeners test_config). GetParser listener \<noteq> ''NxosGrpcParser''"
    by (simp add: GetListenerByParser_def GetListenerByParser_in_None)
  have zero: "GetListenerByParser ?zero ''NxosGrpcParser''
      = Some \<lparr>Name = ''NXOS'', Parser = ''NxosGrpcParser'', Port = 0\<rparr>"
    by (simp add: GetListenerByParser_def GetParser_def)
  have bound: "GetListenerByParser ?bound ''NxosGrpcParser''
      = Some \<lparr>Name = ''NXOS'', Parser = ''NxosGrpcParser'', Port = 50000\<rparr>"
    by (simp add: GetListenerByParser_def GetParser_def)
  have idle1: "NxosGrpcModule_Start None test_config 0 idle_module
      = (idle_module, [Warnf ''NX-OS Telemetry Module disabled''], None)"
    using NxosGrpcModule_Start_idle [of test_config None 0 idle_module, THEN conjunct1]
      unmatched by blast
  have idle2: "NxosGrpcModule_Start None ?zero 0 idle_module
      = (idle_module, [Warnf ''NX-OS Telemetry Module disabled''], None)"
    using NxosGrpcModule_Start_idle [of ?zero None 0 idle_module, THEN conjunct1] zero
    by simp
  have serving: "nx_server (fst (NxosGrpcModule_Start None ?bound 0 idle_module))"
    using NxosGrpcModule_Start_idle [of ?bound None 0 idle_module, THEN conjunct2] bound
    by simp
  from none idle1 zero idle2 bound serving show ?thesis by blast
qed

section \<open>The Minion headers come first\<close>


lemma Inc_keeps [simp]:
  "events (Inc c systemId moduleId cli) = events cli"
  "rpcStream (Inc c systemId moduleId cli) = rpcStream cli"
  "config (Inc c systemId moduleId cli) = config cli"
  by (simp_all add: Inc_def)

lemma emit_keeps [simp]:
  "events (emit e cli) = events cli @ [e]"
  "rpcStream (emit e cli) = rpcStream cli"
  "config (emit e cli) = config cli"
  by (simp_all add: emit_def)

















end
